theory Spec2Isabelle
  imports Complex_Main
begin

section \<open>JavaScript values\<close>

text \<open>
  A JavaScript number is a double: a finite value, one of the two infinities, or NaN.
  Every finite double is a real number, and the comparisons the settings schema makes
  (against 0, 1, 2 and -2) and the integrality test agree with the same tests on reals,
  so the finite numbers are embedded in \<open>real\<close>.
\<close>

datatype jsnum = NaN | NegInf | Fin real | PosInf

text \<open>
  The values that \<open>response.json()\<close> can produce, and \<open>undefined\<close>. An object is
  the list of its own enumerable properties in insertion order, which is the order of
  \<open>Object.entries\<close>.
\<close>

datatype jsval =
    JUndefined
  | JNull
  | JBool bool
  | JNum jsnum
  | JStr string
  | JArr "jsval list"
  | JObj "(string \<times> jsval) list"

text \<open>A thrown value: \<open>error instanceof Error\<close> holds for the first form only.\<close>

datatype thrown = ErrorObj string | NonError

text \<open>\<open>Boolean(v)\<close>, the test of \<open>if (v)\<close> and of \<open>!v\<close>.\<close>

fun truthy :: "jsval \<Rightarrow> bool" where
  "truthy JUndefined = False"
| "truthy JNull = False"
| "truthy (JBool b) = b"
| "truthy (JNum NaN) = False"
| "truthy (JNum (Fin x)) = (x \<noteq> 0)"
| "truthy (JNum NegInf) = True"
| "truthy (JNum PosInf) = True"
| "truthy (JStr s) = (s \<noteq> [])"
| "truthy (JArr xs) = True"
| "truthy (JObj kvs) = True"

text \<open>
  \<open>v.name\<close> for a name that is no array index and no built-in property: a
  \<open>TypeError\<close> on \<open>null\<close> and \<open>undefined\<close>, the own property of an object, and
  \<open>undefined\<close> everywhere else.
\<close>

fun get_prop :: "jsval \<Rightarrow> string \<Rightarrow> thrown + jsval" where
  "get_prop JUndefined k = Inl (ErrorObj ''Cannot read properties of undefined'')"
| "get_prop JNull k = Inl (ErrorObj ''Cannot read properties of null'')"
| "get_prop (JObj kvs) k = Inr (case map_of kvs k of None \<Rightarrow> JUndefined | Some v \<Rightarrow> v)"
| "get_prop v k = Inr JUndefined"

text \<open>The decimal numeral of an array index, as \<open>Object.entries\<close> names it.\<close>

function index_key :: "nat \<Rightarrow> string" where
  "index_key n =
     (if n < 10 then [''0123456789'' ! n]
      else index_key (n div 10) @ [''0123456789'' ! (n mod 10)])"
  by pat_completeness auto
termination
  by (relation "measure id") auto

declare index_key.simps [simp del]

text \<open>
  \<open>Object.entries(v)\<close> for a value that is neither \<open>null\<close> nor \<open>undefined\<close>: the
  properties of an object, the indexed elements of an array, the indexed one-character
  strings of a string, and nothing for a number or a boolean.
\<close>

fun Object_entries :: "jsval \<Rightarrow> (string \<times> jsval) list" where
  "Object_entries (JObj kvs) = kvs"
| "Object_entries (JArr xs) = zip (map index_key [0 ..< length xs]) xs"
| "Object_entries (JStr s) = zip (map index_key [0 ..< length s]) (map (\<lambda>c. JStr [c]) s)"
| "Object_entries v = []"

text \<open>
  \<open>JSON.stringify\<close> of an object whose property values are numbers and strings: a
  property whose value is \<open>undefined\<close> is left out and a number that is not finite is
  written \<open>null\<close>. The result is kept as the JSON value that the text denotes.
\<close>

fun json_prop :: "jsval \<Rightarrow> jsval" where
  "json_prop (JNum (Fin x)) = JNum (Fin x)"
| "json_prop (JNum n) = JNull"
| "json_prop v = v"

definition JSON_stringify :: "(string \<times> jsval) list \<Rightarrow> jsval" where
  "JSON_stringify kvs =
     JObj (map (\<lambda>(k, v). (k, json_prop v)) (filter (\<lambda>(k, v). v \<noteq> JUndefined) kvs))"

text \<open>
  What the JavaScript runtime and the form library are taken to do on values this
  development does not look into: the number a non-empty string converts to, the number
  an array or object converts to through its primitive value, and what an assignment
  along a path of property names makes of an array.
\<close>

record js_builtins =
  StringToNumber :: "string \<Rightarrow> jsnum"
  ObjectToNumber :: "jsval \<Rightarrow> jsnum"
  ArraySet :: "jsval \<Rightarrow> string list \<Rightarrow> jsval \<Rightarrow> jsval"

text \<open>
  \<open>Number(v)\<close>, which is also the unary \<open>+v\<close> and the coercion of
  \<open>z.coerce.number()\<close>. The empty string converts to 0.
\<close>

fun js_Number :: "js_builtins \<Rightarrow> jsval \<Rightarrow> jsnum" where
  "js_Number rt JUndefined = NaN"
| "js_Number rt JNull = Fin 0"
| "js_Number rt (JBool b) = Fin (if b then 1 else 0)"
| "js_Number rt (JNum n) = n"
| "js_Number rt (JStr s) = (if s = [] then Fin 0 else StringToNumber rt s)"
| "js_Number rt v = ObjectToNumber rt v"

section \<open>The network and the notification sink\<close>

datatype verb = GET | POST | PUT

record request =
  url :: string
  http_method :: verb
  headers :: "(string \<times> string) list"
  body :: "jsval option"

text \<open>
  What the environment answers to one \<open>fetch\<close>: the promise rejects (a transport
  error), or it resolves to a response with its \<open>ok\<close> flag and the outcome of
  \<open>response.json()\<close>, which rejects when the body is not JSON.
\<close>

record response =
  ok :: bool
  json :: "thrown + jsval"

datatype fetch_result = Rejects thrown | Resolves response

datatype toast_type = success | error

record toast_msg =
  type :: toast_type
  description :: string

section \<open>The settings form\<close>

text \<open>A timer callback registered with \<open>setTimeout\<close>; \<open>onSubmit\<close> registers one kind.\<close>

datatype callback = MockSaveDone

datatype issue =
    invalid_type_nan
  | not_integer
  | too_small real bool
  | too_big real bool

text \<open>
  The state of a \<open>ProfileSettings\<close> component: the two \<open>useState\<close> cells,
  the values and the errors held by \<open>useForm\<close>, and the logs of its effects (requests
  sent, notifications shown, timers pending, lines written by \<open>console.error\<close>).
  A form value that was never set reads \<open>undefined\<close>.
\<close>

record component =
  isLoading :: bool
  useMockData :: bool
  formValues :: "string \<Rightarrow> jsval"
  errors :: "string \<Rightarrow> issue option"
  requests :: "request list"
  toasts :: "toast_msg list"
  timers :: "(nat \<times> callback) list"
  console :: "string list"

text \<open>
  Modelled from the spec: the \<open>toast\<close> function of \<open>./toast\<close> is the notification
  sink, which accepts a type and a description and displays a transient message,
  fire-and-forget. It appends to the log of notifications shown.
\<close>

definition toast :: "toast_msg \<Rightarrow> component \<Rightarrow> component" where
  "toast t st = st\<lparr>toasts := toasts st @ [t]\<rparr>"

text \<open>\<open>xs.forEach(f)\<close>: the callback runs on each element in order.\<close>

fun forEach :: "('a \<Rightarrow> component \<Rightarrow> component) \<Rightarrow> 'a list \<Rightarrow> component \<Rightarrow> component" where
  "forEach f [] st = st"
| "forEach f (x # xs) st = forEach f xs (f x st)"

subsection \<open>Form values and field paths\<close>

text \<open>
  The form library addresses a form value by a path. A name made of word characters
  only (letters, digits, underscore) is its own path; in any other name the characters
  \<open>"\<close>, \<open>|\<close>, \<open>'\<close> and \<open>]\<close> are dropped, the rest is split at every \<open>.\<close> and
  \<open>[\<close>, and the empty pieces are left out.
\<close>

definition word_char :: "char \<Rightarrow> bool" where
  "word_char c \<longleftrightarrow>
     c \<in> set (''abcdefghijklmnopqrstuvwxyz'' @ ''ABCDEFGHIJKLMNOPQRSTUVWXYZ'' @ ''0123456789_'')"

definition isKey :: "string \<Rightarrow> bool" where
  "isKey name = list_all word_char name"

fun split_at :: "(char \<Rightarrow> bool) \<Rightarrow> string \<Rightarrow> string \<Rightarrow> string list" where
  "split_at sep piece [] = [rev piece]"
| "split_at sep piece (c # cs) =
     (if sep c then rev piece # split_at sep [] cs else split_at sep (c # piece) cs)"

definition stringToPath :: "string \<Rightarrow> string list" where
  "stringToPath name =
     filter (\<lambda>piece. piece \<noteq> [])
       (split_at (\<lambda>c. c = CHR ''.'' \<or> c = CHR ''['') []
          (filter (\<lambda>c. c \<noteq> CHR 0x22 \<and> c \<noteq> CHR ''|'' \<and> c \<noteq> CHR 0x27 \<and> c \<noteq> CHR '']'') name))"

definition field_path :: "string \<Rightarrow> string list" where
  "field_path name = (if isKey name then [name] else stringToPath name)"

text \<open>The property names that the library refuses to assign.\<close>

definition forbidden :: "string \<Rightarrow> bool" where
  "forbidden k \<longleftrightarrow> k = ''__proto__'' \<or> k = ''constructor'' \<or> k = ''prototype''"

text \<open>Assigning a property of an object keeps its place, a new property comes last.\<close>

fun obj_update :: "string \<Rightarrow> jsval \<Rightarrow> (string \<times> jsval) list \<Rightarrow> (string \<times> jsval) list" where
  "obj_update k v [] = [(k, v)]"
| "obj_update k v ((k', v') # kvs) =
     (if k' = k then (k, v) # kvs else (k', v') # obj_update k v kvs)"

fun obj_get :: "(string \<times> jsval) list \<Rightarrow> string \<Rightarrow> jsval" where
  "obj_get kvs k = (case map_of kvs k of None \<Rightarrow> JUndefined | Some v \<Rightarrow> v)"

text \<open>
  On the way down a path, a value that is an object or an array is kept; anything else
  is replaced by a new container, an array when the next name converts to a number and
  an object otherwise.
\<close>

fun is_container :: "jsval \<Rightarrow> bool" where
  "is_container (JObj kvs) = True"
| "is_container (JArr xs) = True"
| "is_container v = False"

definition next_container :: "js_builtins \<Rightarrow> jsval \<Rightarrow> string \<Rightarrow> jsval" where
  "next_container rt objValue k =
     (if is_container objValue then objValue
      else if js_Number rt (JStr k) \<noteq> NaN then JArr [] else JObj [])"

text \<open>
  The assignment of a value along a path inside a container. At a forbidden name it
  stops, leaving the containers made so far.
\<close>

fun set_in :: "js_builtins \<Rightarrow> jsval \<Rightarrow> string list \<Rightarrow> jsval \<Rightarrow> jsval" where
  "set_in rt obj [] v = obj"
| "set_in rt obj [k] v =
     (case obj of
        JObj kvs \<Rightarrow> if forbidden k then obj else JObj (obj_update k v kvs)
      | _ \<Rightarrow> ArraySet rt obj [k] v)"
| "set_in rt obj (k # k' # path) v =
     (case obj of
        JObj kvs \<Rightarrow>
          if forbidden k then obj
          else JObj (obj_update k
                 (set_in rt (next_container rt (obj_get kvs k) k') (k' # path) v) kvs)
      | _ \<Rightarrow> ArraySet rt obj (k # k' # path) v)"

text \<open>The same assignment on the form values, which are the outermost object.\<close>

fun set_values ::
  "js_builtins \<Rightarrow> (string \<Rightarrow> jsval) \<Rightarrow> string list \<Rightarrow> jsval \<Rightarrow> (string \<Rightarrow> jsval)" where
  "set_values rt fv [] v = fv"
| "set_values rt fv [k] v = (if forbidden k then fv else fv(k := v))"
| "set_values rt fv (k # k' # path) v =
     (if forbidden k then fv
      else fv(k := set_in rt (next_container rt (fv k) k') (k' # path) v))"

text \<open>\<open>setValue(name, value)\<close> of \<open>useForm\<close> assigns the value along the path of the name.\<close>

definition setValue :: "js_builtins \<Rightarrow> string \<Rightarrow> jsval \<Rightarrow> component \<Rightarrow> component" where
  "setValue rt name v st =
     st\<lparr>formValues := set_values rt (formValues st) (field_path name) v\<rparr>"

text \<open>
  \<open>register(name)\<close> on an input element, when the element mounts: a field whose form
  value is \<open>undefined\<close> takes the value of the element, which is the empty string for
  an input that was given none; a field that has a value keeps it.
\<close>

definition register :: "string \<Rightarrow> component \<Rightarrow> component" where
  "register name st =
     (if formValues st name = JUndefined
      then st\<lparr>formValues := (formValues st)(name := JStr [])\<rparr>
      else st)"

definition MOCK_SETTINGS :: "(string \<times> jsval) list" where
  "MOCK_SETTINGS =
     [(''temperature'', JNum (Fin 0.7)),
      (''maxTokens'', JNum (Fin 4000)),
      (''topP'', JNum (Fin 0.95)),
      (''frequencyPenalty'', JNum (Fin 0.0)),
      (''presencePenalty'', JNum (Fin 0.0))]"

text \<open>The \<open>defaultValues\<close> of \<open>useForm\<close>: every field but the temperature is \<open>undefined\<close>.\<close>

definition defaultValues :: "string \<Rightarrow> jsval" where
  "defaultValues = (\<lambda>k. JUndefined)(''temperature'' := JNum (Fin 0.7))"

text \<open>
  The component as first rendered: the initial values of the two state cells and of
  \<open>useForm\<close>, before any input has mounted.
\<close>

definition ProfileSettings :: component where
  "ProfileSettings =
     \<lparr>isLoading = True, useMockData = False, formValues = defaultValues,
      errors = (\<lambda>k. None), requests = [], toasts = [], timers = [], console = []\<rparr>"

text \<open>
  The component once its five inputs have mounted, in the order of the markup. This is
  the state in which the mount effect calls \<open>fetchSettings\<close>.
\<close>

definition mounted :: component where
  "mounted =
     forEach register
       [''temperature'', ''maxTokens'', ''topP'', ''frequencyPenalty'', ''presencePenalty'']
       ProfileSettings"

subsection \<open>fetchSettings\<close>

text \<open>The callback of the \<open>forEach\<close> in the \<open>try\<close> block.\<close>

definition set_fetched :: "js_builtins \<Rightarrow> string \<times> jsval \<Rightarrow> component \<Rightarrow> component" where
  "set_fetched rt = (\<lambda>(key, v) st.
     if v \<noteq> JNull \<and> key \<noteq> ''userId'' \<and> key \<noteq> ''createdAt'' \<and> key \<noteq> ''updatedAt''
     then setValue rt key v st else st)"

text \<open>The callback of the \<open>forEach\<close> in the \<open>catch\<close> block.\<close>

definition set_mock :: "js_builtins \<Rightarrow> string \<times> jsval \<Rightarrow> component \<Rightarrow> component" where
  "set_mock rt = (\<lambda>(key, v) st. if v \<noteq> JNull then setValue rt key v st else st)"

definition settings_request :: request where
  "settings_request =
     \<lparr>url = ''/api/profile/settings'', http_method = GET, headers = [], body = None\<rparr>"

text \<open>
  The \<open>try\<close> block after the request has been sent: \<open>Inl\<close> is the value thrown,
  \<open>Inr\<close> the state at the end of the block.
\<close>

definition fetchSettings_try ::
  "js_builtins \<Rightarrow> fetch_result \<Rightarrow> component \<Rightarrow> thrown + component" where
  "fetchSettings_try rt r st =
     (case r of
        Rejects e \<Rightarrow> Inl e
      | Resolves resp \<Rightarrow>
          if \<not> ok resp then Inl (ErrorObj ''Failed to fetch settings'')
          else (case json resp of
                  Inl e \<Rightarrow> Inl e
                | Inr data \<Rightarrow>
                    (case get_prop data ''settings'' of
                       Inl e \<Rightarrow> Inl e
                     | Inr settings \<Rightarrow>
                         Inr ((if truthy settings
                               then forEach (set_fetched rt) (Object_entries settings) st
                               else st)\<lparr>useMockData := False\<rparr>))))"

definition fetchSettings_catch :: "js_builtins \<Rightarrow> component \<Rightarrow> component" where
  "fetchSettings_catch rt st =
     toast \<lparr>type = error,
            description = ''Using sample settings: Database connection unavailable''\<rparr>
       (forEach (set_mock rt) MOCK_SETTINGS
          (st\<lparr>console := console st @ [''Error fetching settings:''],
              useMockData := True\<rparr>))"

text \<open>
  \<open>fetchSettings\<close>, given what the environment answers to its request. The \<open>catch\<close>
  block starts from the state in which the \<open>try\<close> block was entered: every \<open>throw\<close> of
  the block comes before its first write.
\<close>

definition fetchSettings :: "js_builtins \<Rightarrow> fetch_result \<Rightarrow> component \<Rightarrow> component" where
  "fetchSettings rt r st =
     (let st1 = st\<lparr>isLoading := True, requests := requests st @ [settings_request]\<rparr>;
          st2 = (case fetchSettings_try rt r st1 of
                   Inl e \<Rightarrow> fetchSettings_catch rt st1
                 | Inr st' \<Rightarrow> st')
      in st2\<lparr>isLoading := False\<rparr>)"

text \<open>
  A failed load: the request is rejected or answered with a status that is not a
  success, and also a body that is not JSON or is \<open>null\<close>.
\<close>

fun load_fails :: "fetch_result \<Rightarrow> bool" where
  "load_fails (Rejects e) = True"
| "load_fails (Resolves resp) =
     (\<not> ok resp \<or> (case json resp of Inl e \<Rightarrow> True | Inr data \<Rightarrow> data = JNull \<or> data = JUndefined))"

subsection \<open>The validation schema\<close>

text \<open>The comparisons of a number with a finite bound; each is false on NaN.\<close>

fun num_lt :: "jsnum \<Rightarrow> real \<Rightarrow> bool" where
  "num_lt NaN b = False"
| "num_lt NegInf b = True"
| "num_lt (Fin x) b = (x < b)"
| "num_lt PosInf b = False"

fun num_le :: "jsnum \<Rightarrow> real \<Rightarrow> bool" where
  "num_le NaN b = False"
| "num_le NegInf b = True"
| "num_le (Fin x) b = (x \<le> b)"
| "num_le PosInf b = False"

fun num_gt :: "jsnum \<Rightarrow> real \<Rightarrow> bool" where
  "num_gt NaN b = False"
| "num_gt NegInf b = False"
| "num_gt (Fin x) b = (x > b)"
| "num_gt PosInf b = True"

fun num_ge :: "jsnum \<Rightarrow> real \<Rightarrow> bool" where
  "num_ge NaN b = False"
| "num_ge NegInf b = False"
| "num_ge (Fin x) b = (x \<ge> b)"
| "num_ge PosInf b = True"

text \<open>\<open>Number.isInteger\<close>.\<close>

fun isInteger :: "jsnum \<Rightarrow> bool" where
  "isInteger (Fin x) = (x = of_int \<lfloor>x\<rfloor>)"
| "isInteger n = False"

text \<open>
  The checks a number schema accumulates: \<open>.min(b)\<close> is \<open>Min b True\<close>, \<open>.max(b)\<close> is
  \<open>Max b True\<close>, \<open>.positive()\<close> is \<open>Min 0 False\<close> and \<open>.int()\<close> is \<open>IsInt\<close>. The boolean
  says whether the bound itself is allowed.
\<close>

datatype zcheck = Min real bool | Max real bool | IsInt

fun run_check :: "zcheck \<Rightarrow> jsnum \<Rightarrow> issue list" where
  "run_check IsInt n = (if \<not> isInteger n then [not_integer] else [])"
| "run_check (Min b inclusive) n =
     (if (if inclusive then num_lt n b else num_le n b) then [too_small b inclusive] else [])"
| "run_check (Max b inclusive) n =
     (if (if inclusive then num_gt n b else num_ge n b) then [too_big b inclusive] else [])"

datatype ztype = ZCoerceNumber "zcheck list" | ZOptional ztype

text \<open>
  Parsing one value: a coerced number that is NaN is an issue of its own and skips the
  checks; otherwise every check runs and all their issues are kept. An optional schema
  accepts \<open>undefined\<close> as it is.
\<close>

fun zparse :: "js_builtins \<Rightarrow> ztype \<Rightarrow> jsval \<Rightarrow> issue list + jsval" where
  "zparse rt (ZCoerceNumber cs) v =
     (let n = js_Number rt v in
      if n = NaN then Inl [invalid_type_nan]
      else (case concat (map (\<lambda>c. run_check c n) cs) of
              [] \<Rightarrow> Inr (JNum n)
            | i # is \<Rightarrow> Inl (i # is)))"
| "zparse rt (ZOptional t) v = (if v = JUndefined then Inr JUndefined else zparse rt t v)"

definition settingsFormSchema :: "(string \<times> ztype) list" where
  "settingsFormSchema =
     [(''temperature'', ZCoerceNumber [Min 0 True, Max 2 True]),
      (''maxTokens'', ZOptional (ZCoerceNumber [Min 0 False, IsInt])),
      (''topP'', ZOptional (ZCoerceNumber [Min 0 True, Max 1 True])),
      (''frequencyPenalty'', ZOptional (ZCoerceNumber [Min (-2) True, Max 2 True])),
      (''presencePenalty'', ZOptional (ZCoerceNumber [Min (-2) True, Max 2 True]))]"

text \<open>
  Parsing an object against a shape: each key of the shape is read from the input and
  parsed, in order; the issues of all keys are collected under their key, and the
  parsed values make the output. Keys of the input that the shape lacks are dropped.
\<close>

fun parse_shape ::
  "js_builtins \<Rightarrow> (string \<times> ztype) list \<Rightarrow> (string \<Rightarrow> jsval) \<Rightarrow>
     (string \<times> issue) list \<times> (string \<times> jsval) list" where
  "parse_shape rt [] fv = ([], [])"
| "parse_shape rt ((k, t) # sh) fv =
     (case parse_shape rt sh fv of (is, out) \<Rightarrow>
        (case zparse rt t (fv k) of
           Inl js \<Rightarrow> (map (Pair k) js @ is, out)
         | Inr v \<Rightarrow> (is, (k, v) # out)))"

text \<open>
  \<open>zodResolver(schema)\<close>: the parsed values when there is no issue, and otherwise the
  errors by field, the first issue of each field.
\<close>

definition zodResolver ::
  "js_builtins \<Rightarrow> (string \<times> ztype) list \<Rightarrow> (string \<Rightarrow> jsval) \<Rightarrow>
     (string \<Rightarrow> issue option) + (string \<times> jsval) list" where
  "zodResolver rt sh fv =
     (case parse_shape rt sh fv of
        ([], out) \<Rightarrow> Inr out
      | (i # is, out) \<Rightarrow> Inl (map_of (i # is)))"

subsection \<open>onSubmit\<close>

definition update_request :: "(string \<times> jsval) list \<Rightarrow> request" where
  "update_request data =
     \<lparr>url = ''/api/profile/settings'', http_method = PUT,
      headers = [(''Content-Type'', ''application/json'')],
      body = Some (JSON_stringify data)\<rparr>"

definition onSubmit_catch :: "thrown \<Rightarrow> component \<Rightarrow> component" where
  "onSubmit_catch e st =
     toast \<lparr>type = error,
            description = (case e of ErrorObj m \<Rightarrow> m | NonError \<Rightarrow> ''Failed to update settings'')\<rparr>
       (st\<lparr>console := console st @ [''Error updating settings:'']\<rparr>)"

text \<open>
  \<open>onSubmit(data)\<close>, given what the environment answers to the request if one is
  sent. In mock mode it registers a timer of 500 ms and returns.
\<close>

definition onSubmit :: "fetch_result \<Rightarrow> (string \<times> jsval) list \<Rightarrow> component \<Rightarrow> component" where
  "onSubmit r data st =
     (let st1 = st\<lparr>isLoading := True\<rparr> in
      if useMockData st then st1\<lparr>timers := timers st1 @ [(500, MockSaveDone)]\<rparr>
      else
        (let st2 = st1\<lparr>requests := requests st1 @ [update_request data]\<rparr>;
             st3 = (case r of
                      Rejects e \<Rightarrow> onSubmit_catch e st2
                    | Resolves resp \<Rightarrow>
                        if \<not> ok resp then onSubmit_catch (ErrorObj ''Failed to update settings'') st2
                        else toast \<lparr>type = success,
                                    description = ''Settings updated successfully''\<rparr> st2)
         in st3\<lparr>isLoading := False\<rparr>))"

text \<open>
  \<open>handleSubmit(onSubmit)\<close>: the form values go through the resolver; with errors
  they are recorded and \<open>onSubmit\<close> is not called, without errors \<open>onSubmit\<close> receives
  the parsed values.
\<close>

definition handleSubmit :: "js_builtins \<Rightarrow> fetch_result \<Rightarrow> component \<Rightarrow> component" where
  "handleSubmit rt r st =
     (case zodResolver rt settingsFormSchema (formValues st) of
        Inl errs \<Rightarrow> st\<lparr>errors := errs\<rparr>
      | Inr data \<Rightarrow> onSubmit r data (st\<lparr>errors := (\<lambda>k. None)\<rparr>))"

text \<open>The body of the timer callback of \<open>onSubmit\<close>.\<close>

fun run_callback :: "nat \<times> callback \<Rightarrow> component \<Rightarrow> component" where
  "run_callback (delay, MockSaveDone) st =
     toast \<lparr>type = success, description = ''Settings updated in mock mode''\<rparr>
       (st\<lparr>isLoading := False\<rparr>)"

text \<open>The pending timers expire, in the order in which they were registered.\<close>

definition fire_timers :: "component \<Rightarrow> component" where
  "fire_timers st = forEach run_callback (timers st) (st\<lparr>timers := []\<rparr>)"

text \<open>
  The operation \<open>submitSettings\<close> of the specification: the submit handler, followed by
  the expiry of the timers.
\<close>

definition submitSettings :: "js_builtins \<Rightarrow> fetch_result \<Rightarrow> component \<Rightarrow> component" where
  "submitSettings rt r st = fire_timers (handleSubmit rt r st)"

text \<open>
  The domains of the fields of \<open>ModelSettings\<close> as the specification declares them:
  the temperature in [0, 2], \<open>maxTokens\<close> a positive integer, \<open>topP\<close> in [0, 1] and the
  two penalties in [-2, 2].
\<close>

fun between :: "real \<Rightarrow> real \<Rightarrow> jsnum \<Rightarrow> bool" where
  "between lo hi (Fin x) = (lo \<le> x \<and> x \<le> hi)"
| "between lo hi n = False"

fun positive_integer :: "jsnum \<Rightarrow> bool" where
  "positive_integer (Fin x) = (0 < x \<and> x \<in> \<int>)"
| "positive_integer n = False"

definition in_domain :: "string \<Rightarrow> jsnum \<Rightarrow> bool" where
  "in_domain k n =
     (if k = ''temperature'' then between 0 2 n
      else if k = ''maxTokens'' then positive_integer n
      else if k = ''topP'' then between 0 1 n
      else if k = ''frequencyPenalty'' then between (-2) 2 n
      else if k = ''presencePenalty'' then between (-2) 2 n
      else True)"

definition optional_fields :: "string list" where
  "optional_fields = [''maxTokens'', ''topP'', ''frequencyPenalty'', ''presencePenalty'']"

section \<open>The slogan tool\<close>

text \<open>
  An entry of \<open>process.env\<close> is a string or \<open>undefined\<close>. \<open>!x\<close> holds of \<open>undefined\<close>
  and of the empty string; in a template literal and as the argument of \<open>fetch\<close>,
  \<open>undefined\<close> reads \<open>undefined\<close>.
\<close>

fun env_falsy :: "string option \<Rightarrow> bool" where
  "env_falsy None = True"
| "env_falsy (Some s) = (s = [])"

fun env_string :: "string option \<Rightarrow> string" where
  "env_string None = ''undefined''"
| "env_string (Some s) = s"

definition slogan_request :: "string option \<Rightarrow> string option \<Rightarrow> string \<Rightarrow> request" where
  "slogan_request apiUrl apiKey prompt =
     \<lparr>url = env_string apiUrl, http_method = POST,
      headers = [(''Content-Type'', ''application/json''),
                 (''Authorization'', ''Bearer '' @ env_string apiKey)],
      body = Some (JSON_stringify [(''prompt'', JStr prompt)])\<rparr>"

text \<open>
  \<open>execute\<close> of \<open>generateSlogan\<close>: the requests it sends, and the value it throws
  (\<open>Inl\<close>) or returns (\<open>Inr\<close>), given the environment variables and what the endpoint
  answers.
\<close>

definition generateSlogan ::
  "(string \<Rightarrow> string option) \<Rightarrow> fetch_result \<Rightarrow> string \<Rightarrow> request list \<times> (thrown + jsval)" where
  "generateSlogan env r prompt =
     (let apiUrl = env ''NOVA_AI_API_URL'';
          apiKey = env ''NOVA_AI_API_KEY''
      in if env_falsy apiUrl \<or> env_falsy apiKey
         then ([], Inl (ErrorObj ''NovaAI is not configured''))
         else ([slogan_request apiUrl apiKey prompt],
               (case r of Rejects e \<Rightarrow> Inl e | Resolves resp \<Rightarrow> json resp)))"

section \<open>Loading the settings\<close>

lemma plain_field_names:
  "isKey ''temperature''" "isKey ''maxTokens''" "isKey ''topP''"
  "isKey ''frequencyPenalty''" "isKey ''presencePenalty''"
  by (simp_all add: isKey_def word_char_def)

lemma setValue_plain:
  "isKey k \<Longrightarrow> \<not> forbidden k \<Longrightarrow>
   setValue rt k v st = st\<lparr>formValues := (formValues st)(k := v)\<rparr>"
  by (simp add: setValue_def field_path_def)

lemma mounted_eq:
  "mounted =
     \<lparr>isLoading = True, useMockData = False,
      formValues = (\<lambda>k. JUndefined)
        (''temperature'' := JNum (Fin 0.7), ''maxTokens'' := JStr [], ''topP'' := JStr [],
         ''frequencyPenalty'' := JStr [], ''presencePenalty'' := JStr []),
      errors = (\<lambda>k. None), requests = [], toasts = [], timers = [], console = []\<rparr>"
  by (simp add: mounted_def register_def ProfileSettings_def defaultValues_def)

lemma forEach_mock_values:
  "formValues (forEach (set_mock rt) MOCK_SETTINGS st) =
     (formValues st)
       (''temperature'' := JNum (Fin 0.7), ''maxTokens'' := JNum (Fin 4000),
        ''topP'' := JNum (Fin 0.95), ''frequencyPenalty'' := JNum (Fin 0.0),
        ''presencePenalty'' := JNum (Fin 0.0))"
  by (simp add: MOCK_SETTINGS_def set_mock_def setValue_plain plain_field_names forbidden_def)

lemma self_update: "\<exists>g. s = s\<lparr>formValues := g\<rparr>"
  by (rule exI [of _ "formValues s"]) simp

lemma forEach_frame:
  assumes "\<And>x s. \<exists>g. f x s = s\<lparr>formValues := g\<rparr>"
  shows "\<exists>g. forEach f xs st = st\<lparr>formValues := g\<rparr>"
proof (induction xs arbitrary: st)
  case Nil
  show ?case by (simp add: self_update)
next
  case (Cons x xs)
  obtain g where g: "f x st = st\<lparr>formValues := g\<rparr>" using assms by blast
  obtain h where h: "forEach f xs (f x st) = (f x st)\<lparr>formValues := h\<rparr>"
    using Cons.IH by blast
  have "forEach f (x # xs) st = forEach f xs (f x st)" by simp
  also have "\<dots> = (f x st)\<lparr>formValues := h\<rparr>" by (rule h)
  also have "\<dots> = st\<lparr>formValues := h\<rparr>" by (simp add: g)
  finally show ?case by blast
qed

lemma setValue_frame: "\<exists>g. setValue rt k v s = s\<lparr>formValues := g\<rparr>"
  unfolding setValue_def by (rule exI) (rule refl)

lemma set_mock_frame: "\<exists>g. set_mock rt x s = s\<lparr>formValues := g\<rparr>"
  by (cases x) (simp add: set_mock_def setValue_frame self_update)


lemma forEach_mock_frame: "\<exists>g. forEach (set_mock rt) xs st = st\<lparr>formValues := g\<rparr>"
  by (rule forEach_frame) (rule set_mock_frame)


lemma load_fails_try:
  "load_fails r \<Longrightarrow> \<exists>e. fetchSettings_try rt r st = Inl e"
  by (cases r) (auto simp: fetchSettings_try_def split: sum.splits)

lemma fetchSettings_failure:
  assumes "load_fails r"
  shows "fetchSettings rt r st =
    (fetchSettings_catch rt (st\<lparr>isLoading := True, requests := requests st @ [settings_request]\<rparr>))\<lparr>isLoading := False\<rparr>"
proof -
  obtain e where "fetchSettings_try rt r (st\<lparr>isLoading := True, requests := requests st @ [settings_request]\<rparr>) = Inl e"
    using load_fails_try [OF assms] by blast
  then show ?thesis by (simp add: fetchSettings_def)
qed

text \<open>
  Claim C1. Whenever the load fails (the request is rejected, or the response is not a
  success, or its body is not JSON or is \<open>null\<close>), the form holds the five values of
  \<open>MOCK_SETTINGS\<close> (temperature 0.7, maxTokens 4000, topP 0.95, both penalties 0) and
  every other entry as before, the demo-mode flag is set, and exactly one
  notification has been added to those shown.
\<close>

theorem loadSettings_failure:
  assumes "load_fails r"
  shows "formValues (fetchSettings rt r st) =
           (formValues st)
             (''temperature'' := JNum (Fin 0.7), ''maxTokens'' := JNum (Fin 4000),
              ''topP'' := JNum (Fin 0.95), ''frequencyPenalty'' := JNum (Fin 0.0),
              ''presencePenalty'' := JNum (Fin 0.0))
         \<and> useMockData (fetchSettings rt r st)
         \<and> toasts (fetchSettings rt r st) =
             toasts st @ [\<lparr>type = error,
               description = ''Using sample settings: Database connection unavailable''\<rparr>]"
proof -
  let ?st2 = "st\<lparr>isLoading := True, requests := requests st @ [settings_request],
                 console := console st @ [''Error fetching settings:''], useMockData := True\<rparr>"
  obtain g where g: "forEach (set_mock rt) MOCK_SETTINGS ?st2 = ?st2\<lparr>formValues := g\<rparr>"
    using forEach_mock_frame by blast
  have "formValues (forEach (set_mock rt) MOCK_SETTINGS ?st2) = g" by (simp add: g)
  then have gv: "g = (formValues st)
             (''temperature'' := JNum (Fin 0.7), ''maxTokens'' := JNum (Fin 4000),
              ''topP'' := JNum (Fin 0.95), ''frequencyPenalty'' := JNum (Fin 0.0),
              ''presencePenalty'' := JNum (Fin 0.0))"
    by (simp add: forEach_mock_values)
  have eq: "fetchSettings rt r st = (toast \<lparr>type = error,
            description = ''Using sample settings: Database connection unavailable''\<rparr> (?st2\<lparr>formValues := g\<rparr>))\<lparr>isLoading := False\<rparr>"
    using g by (simp add: fetchSettings_failure [OF assms] fetchSettings_catch_def)
  show ?thesis
    unfolding eq by (simp add: toast_def gv)
qed

theorem loadSettings_failure_witness:
  "load_fails (Rejects (ErrorObj ''Failed to fetch''))
   \<and> formValues (fetchSettings \<lparr>StringToNumber = \<lambda>s. NaN, ObjectToNumber = \<lambda>v. NaN, ArraySet = \<lambda>a p v. a\<rparr>
        (Rejects (ErrorObj ''Failed to fetch'')) mounted) =
      (\<lambda>k. JUndefined)
        (''temperature'' := JNum (Fin 0.7), ''maxTokens'' := JNum (Fin 4000),
         ''topP'' := JNum (Fin 0.95), ''frequencyPenalty'' := JNum (Fin 0.0),
         ''presencePenalty'' := JNum (Fin 0.0))
   \<and> useMockData (fetchSettings \<lparr>StringToNumber = \<lambda>s. NaN, ObjectToNumber = \<lambda>v. NaN, ArraySet = \<lambda>a p v. a\<rparr>
        (Rejects (ErrorObj ''Failed to fetch'')) mounted)
   \<and> toasts (fetchSettings \<lparr>StringToNumber = \<lambda>s. NaN, ObjectToNumber = \<lambda>v. NaN, ArraySet = \<lambda>a p v. a\<rparr>
        (Rejects (ErrorObj ''Failed to fetch'')) mounted) =
      [\<lparr>type = error, description = ''Using sample settings: Database connection unavailable''\<rparr>]"
  using loadSettings_failure [of "Rejects (ErrorObj ''Failed to fetch'')"
      "\<lparr>StringToNumber = \<lambda>s. NaN, ObjectToNumber = \<lambda>v. NaN, ArraySet = \<lambda>a p v. a\<rparr>" mounted]
  by (simp add: mounted_eq)







lemma not_load_fails:
  assumes "\<not> load_fails r"
  obtains resp data s where "r = Resolves resp" and "ok resp" and "json resp = Inr data"
    and "get_prop data ''settings'' = Inr s"
proof -
  from assms obtain resp where r: "r = Resolves resp" by (cases r) auto
  from assms r have ok: "ok resp" by simp
  from assms r obtain data where d: "json resp = Inr data" and nn: "data \<noteq> JNull" "data \<noteq> JUndefined"
    by (cases "json resp") auto
  from nn obtain s where "get_prop data ''settings'' = Inr s"
    by (cases data) auto
  with r ok d that show ?thesis by blast
qed

lemma try_throws_iff_load_fails:
  "(\<exists>e. fetchSettings_try rt r st = Inl e) \<longleftrightarrow> load_fails r"
proof
  assume "load_fails r"
  then show "\<exists>e. fetchSettings_try rt r st = Inl e" by (rule load_fails_try)
next
  assume t: "\<exists>e. fetchSettings_try rt r st = Inl e"
  show "load_fails r"
  proof (rule ccontr)
    assume "\<not> load_fails r"
    then obtain resp data s where "r = Resolves resp" "ok resp" "json resp = Inr data"
      "get_prop data ''settings'' = Inr s"
      by (rule not_load_fails)
    then have "\<exists>st'. fetchSettings_try rt r st = Inr st'"
      by (simp add: fetchSettings_try_def)
    with t show False by auto
  qed
qed














section \<open>Validation\<close>

lemmas load_simps =
  fetchSettings_def fetchSettings_try_def fetchSettings_catch_def set_fetched_def set_mock_def
  setValue_def field_path_def isKey_def word_char_def forbidden_def MOCK_SETTINGS_def toast_def
  mounted_eq


lemma floor_eq_Ints: "(x = real_of_int \<lfloor>x\<rfloor>) \<longleftrightarrow> x \<in> \<int>"
proof
  assume "x = real_of_int \<lfloor>x\<rfloor>"
  then show "x \<in> \<int>" by (metis Ints_of_int)
next
  assume "x \<in> \<int>"
  then show "x = real_of_int \<lfloor>x\<rfloor>" by (auto elim: Ints_cases)
qed

lemma isInteger_iff: "isInteger n \<longleftrightarrow> (\<exists>x. n = Fin x \<and> x \<in> \<int>)"
  by (cases n) (simp_all add: floor_eq_Ints)

lemma bounds_reject:
  "\<not> between lo hi n \<Longrightarrow> n \<noteq> NaN \<Longrightarrow>
   concat (map (\<lambda>c. run_check c n) [Min lo True, Max hi True]) \<noteq> []"
  by (cases n) auto

lemma positive_int_reject:
  "\<not> positive_integer n \<Longrightarrow> n \<noteq> NaN \<Longrightarrow>
   concat (map (\<lambda>c. run_check c n) [Min 0 False, IsInt]) \<noteq> []"
  by (cases n) (auto simp: floor_eq_Ints)

lemma coerce_number_rejects:
  "concat (map (\<lambda>c. run_check c n) cs) \<noteq> [] \<or> n = NaN \<Longrightarrow>
   \<exists>js. zparse rt (ZCoerceNumber cs) (JNum n) = Inl js"
  by (cases "concat (map (\<lambda>c. run_check c n) cs)") (auto simp: Let_def)

lemma schema_field:
  assumes "k = ''temperature'' \<or> k \<in> set optional_fields"
  shows "\<exists>t. (k, t) \<in> set settingsFormSchema"
proof -
  from assms have "k = ''temperature'' \<or> k = ''maxTokens'' \<or> k = ''topP'' \<or>
      k = ''frequencyPenalty'' \<or> k = ''presencePenalty''"
    by (simp add: optional_fields_def)
  then show ?thesis
    by (elim disjE) (simp_all add: settingsFormSchema_def)
qed

lemma schema_cases:
  assumes "(k, t) \<in> set settingsFormSchema"
  shows "(k = ''temperature'' \<and> t = ZCoerceNumber [Min 0 True, Max 2 True]) \<or>
         (k = ''maxTokens'' \<and> t = ZOptional (ZCoerceNumber [Min 0 False, IsInt])) \<or>
         (k = ''topP'' \<and> t = ZOptional (ZCoerceNumber [Min 0 True, Max 1 True])) \<or>
         (k = ''frequencyPenalty'' \<and> t = ZOptional (ZCoerceNumber [Min (-2) True, Max 2 True])) \<or>
         (k = ''presencePenalty'' \<and> t = ZOptional (ZCoerceNumber [Min (-2) True, Max 2 True]))"
  using assms by (simp add: settingsFormSchema_def)

lemma out_of_domain_rejected:
  assumes "(k, t) \<in> set settingsFormSchema" and "\<not> in_domain k n"
  shows "\<exists>js. zparse rt t (JNum n) = Inl js"
proof -
  have opt: "zparse rt (ZOptional u) (JNum n) = zparse rt u (JNum n)" for u by simp
  have b: "\<exists>js. zparse rt (ZCoerceNumber [Min lo True, Max hi True]) (JNum n) = Inl js"
    if "\<not> between lo hi n" for lo hi
    using that bounds_reject [of lo hi n] by (intro coerce_number_rejects) blast
  have p: "\<exists>js. zparse rt (ZCoerceNumber [Min 0 False, IsInt]) (JNum n) = Inl js"
    if "\<not> positive_integer n"
    using that positive_int_reject [of n] by (intro coerce_number_rejects) blast
  from schema_cases [OF assms(1)] show ?thesis
  proof (elim disjE conjE)
    assume "k = ''temperature''" "t = ZCoerceNumber [Min 0 True, Max 2 True]"
    then show ?thesis using assms(2) b [of 0 2] by (simp add: in_domain_def del: zparse.simps(1))
  next
    assume "k = ''maxTokens''" "t = ZOptional (ZCoerceNumber [Min 0 False, IsInt])"
    then show ?thesis using assms(2) p by (simp add: in_domain_def del: zparse.simps(1))
  next
    assume "k = ''topP''" "t = ZOptional (ZCoerceNumber [Min 0 True, Max 1 True])"
    then show ?thesis using assms(2) b [of 0 1] by (simp add: in_domain_def del: zparse.simps(1))
  next
    assume "k = ''frequencyPenalty''" "t = ZOptional (ZCoerceNumber [Min (-2) True, Max 2 True])"
    then show ?thesis using assms(2) b [of "-2" 2] by (simp add: in_domain_def del: zparse.simps(1))
  next
    assume "k = ''presencePenalty''" "t = ZOptional (ZCoerceNumber [Min (-2) True, Max 2 True])"
    then show ?thesis using assms(2) b [of "-2" 2] by (simp add: in_domain_def del: zparse.simps(1))
  qed
qed


lemma run_callback_eq:
  "run_callback t st =
     st\<lparr>isLoading := False,
        toasts := toasts st @ [\<lparr>type = success, description = ''Settings updated in mock mode''\<rparr>]\<rparr>"
proof (cases t)
  case (Pair d c)
  then show ?thesis by (cases c) (simp add: toast_def)
qed

lemma forEach_requests: "requests (forEach run_callback ts st) = requests st"
  by (induction ts arbitrary: st) (simp_all add: run_callback_eq)

lemma zparse_issues_nonempty: "zparse rt t v = Inl js \<Longrightarrow> js \<noteq> []"
  by (induction t) (auto simp: Let_def split: if_splits list.splits)

lemma parse_shape_issue:
  "(k, t) \<in> set sh \<Longrightarrow> zparse rt t (fv k) = Inl js \<Longrightarrow>
   k \<in> fst ` set (fst (parse_shape rt sh fv))"
proof (induction sh)
  case Nil
  then show ?case by simp
next
  case (Cons x sh)
  obtain k' t' where x: "x = (k', t')" by (cases x)
  obtain iss out where p: "parse_shape rt sh fv = (iss, out)" by (cases "parse_shape rt sh fv")
  show ?case
  proof (cases "(k, t) = (k', t')")
    case True
    from Cons.prems(2) obtain j js' where "js = j # js'"
      using zparse_issues_nonempty by (cases js) auto
    with True Cons.prems(2) show ?thesis by (simp add: x p)
  next
    case False
    with Cons.prems x have "(k, t) \<in> set sh" by auto
    then have "k \<in> fst ` set iss" using Cons.IH Cons.prems(2) p by simp
    then show ?thesis by (auto simp: x p split: sum.splits)
  qed
qed

lemma zodResolver_rejects:
  assumes "(k, t) \<in> set sh" and "zparse rt t (fv k) = Inl js"
  shows "\<exists>errs i. zodResolver rt sh fv = Inl errs \<and> errs k = Some i"
proof -
  obtain iss out where p: "parse_shape rt sh fv = (iss, out)" by (cases "parse_shape rt sh fv")
  have k: "k \<in> fst ` set iss" using parse_shape_issue [of k t sh rt fv js] assms p by simp
  then have ne: "iss \<noteq> []" by auto
  from k obtain i where "map_of iss k = Some i"
    by (metis map_of_eq_None_iff not_Some_eq)
  with ne show ?thesis by (cases iss) (auto simp: zodResolver_def p)
qed


text \<open>
  Claim C4. When the temperature, or an optional field that is present, holds a number
  outside the domain the specification declares for it (for instance \<open>topP = 1.5\<close>),
  the submit handler records an error under that field, from which the form shows the
  message below the input, and no request is sent.
\<close>

theorem out_of_domain_input_rejected:
  assumes "k = ''temperature'' \<or> k \<in> set optional_fields"
    and "formValues st k = JNum n" and "\<not> in_domain k n"
  shows "(\<exists>i. errors (handleSubmit rt r st) k = Some i) \<and>
         requests (handleSubmit rt r st) = requests st \<and>
         requests (submitSettings rt r st) = requests st"
proof -
  obtain t where t: "(k, t) \<in> set settingsFormSchema"
    using schema_field [OF assms(1)] by blast
  obtain js where js: "zparse rt t (formValues st k) = Inl js"
    using out_of_domain_rejected [OF t assms(3)] assms(2) by auto
  obtain errs i where e: "zodResolver rt settingsFormSchema (formValues st) = Inl errs" "errs k = Some i"
    using zodResolver_rejects [of k t settingsFormSchema rt "formValues st" js] t js by blast
  then have "handleSubmit rt r st = st\<lparr>errors := errs\<rparr>" by (simp add: handleSubmit_def)
  then show ?thesis using e(2) by (simp add: submitSettings_def fire_timers_def forEach_requests)
qed

theorem out_of_domain_input_rejected_witness:
  "''topP'' \<in> set optional_fields \<and>
   formValues (fetchSettings \<lparr>StringToNumber = \<lambda>s. NaN, ObjectToNumber = \<lambda>v. NaN, ArraySet = \<lambda>a p v. a\<rparr>
      (Resolves \<lparr>ok = True, json = Inr (JObj [(''settings'', JObj [(''topP'', JNum (Fin 1.5))])])\<rparr>)
      mounted) ''topP'' = JNum (Fin 1.5) \<and>
   \<not> in_domain ''topP'' (Fin 1.5) \<and>
   (\<exists>i. errors (handleSubmit \<lparr>StringToNumber = \<lambda>s. NaN, ObjectToNumber = \<lambda>v. NaN, ArraySet = \<lambda>a p v. a\<rparr> (Rejects NonError) (fetchSettings \<lparr>StringToNumber = \<lambda>s. NaN, ObjectToNumber = \<lambda>v. NaN, ArraySet = \<lambda>a p v. a\<rparr>
      (Resolves \<lparr>ok = True, json = Inr (JObj [(''settings'', JObj [(''topP'', JNum (Fin 1.5))])])\<rparr>)
      mounted)) ''topP'' = Some i) \<and>
   requests (submitSettings \<lparr>StringToNumber = \<lambda>s. NaN, ObjectToNumber = \<lambda>v. NaN, ArraySet = \<lambda>a p v. a\<rparr> (Rejects NonError) (fetchSettings \<lparr>StringToNumber = \<lambda>s. NaN, ObjectToNumber = \<lambda>v. NaN, ArraySet = \<lambda>a p v. a\<rparr>
      (Resolves \<lparr>ok = True, json = Inr (JObj [(''settings'', JObj [(''topP'', JNum (Fin 1.5))])])\<rparr>)
      mounted)) = [settings_request]"
proof -
  let ?st = "(fetchSettings \<lparr>StringToNumber = \<lambda>s. NaN, ObjectToNumber = \<lambda>v. NaN, ArraySet = \<lambda>a p v. a\<rparr>
      (Resolves \<lparr>ok = True, json = Inr (JObj [(''settings'', JObj [(''topP'', JNum (Fin 1.5))])])\<rparr>)
      mounted)"
  have v: "formValues ?st ''topP'' = JNum (Fin 1.5)"
    by (simp add: load_simps)
  have q: "requests ?st = [settings_request]"
    by (simp add: load_simps)
  have m: "''topP'' \<in> set optional_fields"
    by (simp add: optional_fields_def)
  then have o: "''topP'' = ''temperature'' \<or> ''topP'' \<in> set optional_fields" by (rule disjI2)
  have d: "\<not> in_domain ''topP'' (Fin 1.5)" by (simp add: in_domain_def)
  show ?thesis
    using out_of_domain_input_rejected [OF o v d, of "\<lparr>StringToNumber = \<lambda>s. NaN, ObjectToNumber = \<lambda>v. NaN, ArraySet = \<lambda>a p v. a\<rparr>" "Rejects NonError"] m v d q
    by simp
qed


text \<open>
  An optional schema accepts \<open>undefined\<close> as it is: with the temperature in [0, 2] and
  the four optional values \<open>undefined\<close>, the resolver returns the values.
\<close>

lemma schema_accepts_undefined:
  assumes "fv ''temperature'' = JNum n" and "between 0 2 n"
    and "fv ''maxTokens'' = JUndefined" and "fv ''topP'' = JUndefined"
    and "fv ''frequencyPenalty'' = JUndefined" and "fv ''presencePenalty'' = JUndefined"
  shows "zodResolver rt settingsFormSchema fv =
           Inr [(''temperature'', JNum n), (''maxTokens'', JUndefined), (''topP'', JUndefined),
                (''frequencyPenalty'', JUndefined), (''presencePenalty'', JUndefined)]"
proof -
  from assms(2) obtain x where x: "n = Fin x" "0 \<le> x" "x \<le> 2" by (cases n) auto
  show ?thesis
    using assms(1,3-) x by (simp add: zodResolver_def settingsFormSchema_def)
qed

text \<open>
  The value of an input left empty is the empty string, which the coercion turns
  into 0: an empty \<open>maxTokens\<close> fails \<open>positive()\<close>, whatever the other fields hold.
\<close>

lemma empty_maxTokens_rejected:
  assumes "formValues st ''maxTokens'' = JStr []"
  shows "(\<exists>i. errors (handleSubmit rt r st) ''maxTokens'' = Some i) \<and>
         requests (handleSubmit rt r st) = requests st"
proof -
  have t: "(''maxTokens'', ZOptional (ZCoerceNumber [Min 0 False, IsInt])) \<in> set settingsFormSchema"
    by (simp add: settingsFormSchema_def)
  have z: "zparse rt (ZOptional (ZCoerceNumber [Min 0 False, IsInt])) (formValues st ''maxTokens'') =
      Inl [too_small 0 False]"
    by (simp add: assms)
  obtain errs i where e: "zodResolver rt settingsFormSchema (formValues st) = Inl errs"
      "errs ''maxTokens'' = Some i"
    using zodResolver_rejects [of "''maxTokens''" "ZOptional (ZCoerceNumber [Min 0 False, IsInt])"
        settingsFormSchema rt "formValues st" "[too_small 0 False]"] t z by blast
  then have "handleSubmit rt r st = st\<lparr>errors := errs\<rparr>" by (simp add: handleSubmit_def)
  then show ?thesis using e(2) by simp
qed

text \<open>
  Claim C9, on the mounted form. After a load that returned no settings the four
  optional inputs are empty and the temperature is 0.7, in its domain. Submitting this
  form is rejected: the empty \<open>maxTokens\<close> is coerced to 0 and fails \<open>positive()\<close>, an
  error is recorded under \<open>maxTokens\<close> and no write is sent.
\<close>

theorem empty_optional_inputs_rejected:
  "formValues (fetchSettings rt (Resolves \<lparr>ok = True, json = Inr (JObj [])\<rparr>) mounted) =
     (\<lambda>k. JUndefined)
       (''temperature'' := JNum (Fin 0.7), ''maxTokens'' := JStr [], ''topP'' := JStr [],
        ''frequencyPenalty'' := JStr [], ''presencePenalty'' := JStr []) \<and>
   errors (handleSubmit rt r
       (fetchSettings rt (Resolves \<lparr>ok = True, json = Inr (JObj [])\<rparr>) mounted)) ''maxTokens'' =
     Some (too_small 0 False) \<and>
   requests (handleSubmit rt r
       (fetchSettings rt (Resolves \<lparr>ok = True, json = Inr (JObj [])\<rparr>) mounted)) =
     [settings_request]"
  by (simp add: load_simps handleSubmit_def zodResolver_def settingsFormSchema_def)

section \<open>Submitting the settings\<close>

lemma forEach_callback_frame:
  "forEach run_callback ts st =
     st\<lparr>isLoading := (if ts = [] then isLoading st else False),
        toasts := toasts st @
          replicate (length ts) \<lparr>type = success, description = ''Settings updated in mock mode''\<rparr>\<rparr>"
proof (induction ts arbitrary: st)
  case Nil
  show ?case by simp
next
  case (Cons t ts)
  have "forEach run_callback (t # ts) st = forEach run_callback ts (run_callback t st)"
    by simp
  also have "\<dots> = (run_callback t st)
     \<lparr>isLoading := (if ts = [] then isLoading (run_callback t st) else False),
        toasts := toasts (run_callback t st) @
          replicate (length ts) \<lparr>type = success, description = ''Settings updated in mock mode''\<rparr>\<rparr>"
    by (rule Cons.IH)
  finally show ?case
    by (simp add: run_callback_eq [of t st] replicate_append_same)
qed

lemma fire_timers_eq:
  "fire_timers st =
     st\<lparr>timers := [],
        isLoading := (if timers st = [] then isLoading st else False),
        toasts := toasts st @
          replicate (length (timers st)) \<lparr>type = success, description = ''Settings updated in mock mode''\<rparr>\<rparr>"
  by (simp add: fire_timers_def forEach_callback_frame)

lemma onSubmit_mock:
  "useMockData st \<Longrightarrow>
   onSubmit r data st = st\<lparr>isLoading := True, timers := timers st @ [(500, MockSaveDone)]\<rparr>"
  by (simp add: onSubmit_def)

lemma onSubmit_live:
  "\<not> useMockData st \<Longrightarrow>
   onSubmit r data st =
     st\<lparr>requests := requests st @ [update_request data],
        console := (case r of
                      Rejects e \<Rightarrow> console st @ [''Error updating settings:'']
                    | Resolves resp \<Rightarrow>
                        if ok resp then console st else console st @ [''Error updating settings:'']),
        toasts := toasts st @
          [case r of
             Rejects e \<Rightarrow>
               \<lparr>type = error,
                description = (case e of ErrorObj m \<Rightarrow> m | NonError \<Rightarrow> ''Failed to update settings'')\<rparr>
           | Resolves resp \<Rightarrow>
               if ok resp then \<lparr>type = success, description = ''Settings updated successfully''\<rparr>
               else \<lparr>type = error, description = ''Failed to update settings''\<rparr>],
        isLoading := False\<rparr>"
  by (cases r) (simp_all add: onSubmit_def onSubmit_catch_def toast_def)

lemma onSubmit_mode: "useMockData (onSubmit r data st) = useMockData st"
  by (cases "useMockData st") (simp_all add: onSubmit_mock onSubmit_live)

lemma onSubmit_formValues: "formValues (onSubmit r data st) = formValues st"
  by (cases "useMockData st") (simp_all add: onSubmit_mock onSubmit_live)

lemma handleSubmit_mode: "useMockData (handleSubmit rt r st) = useMockData st"
  by (cases "zodResolver rt settingsFormSchema (formValues st)")
     (simp_all add: handleSubmit_def onSubmit_mode)

lemma handleSubmit_formValues: "formValues (handleSubmit rt r st) = formValues st"
  by (cases "zodResolver rt settingsFormSchema (formValues st)")
     (simp_all add: handleSubmit_def onSubmit_formValues)

text \<open>
  Two states that the component reaches from the mounted form: in demo mode after a
  failed load, and in live mode after a load that returned a temperature and
  \<open>maxTokens\<close>. Both pass validation.
\<close>

lemma demo_state:
  "useMockData (fetchSettings \<lparr>StringToNumber = \<lambda>s. NaN, ObjectToNumber = \<lambda>v. NaN, ArraySet = \<lambda>a p v. a\<rparr> (Rejects (ErrorObj ''Failed to fetch'')) mounted)"
  "requests (fetchSettings \<lparr>StringToNumber = \<lambda>s. NaN, ObjectToNumber = \<lambda>v. NaN, ArraySet = \<lambda>a p v. a\<rparr> (Rejects (ErrorObj ''Failed to fetch'')) mounted) = [settings_request]"
  "timers (fetchSettings \<lparr>StringToNumber = \<lambda>s. NaN, ObjectToNumber = \<lambda>v. NaN, ArraySet = \<lambda>a p v. a\<rparr> (Rejects (ErrorObj ''Failed to fetch'')) mounted) = []"
  "toasts (fetchSettings \<lparr>StringToNumber = \<lambda>s. NaN, ObjectToNumber = \<lambda>v. NaN, ArraySet = \<lambda>a p v. a\<rparr> (Rejects (ErrorObj ''Failed to fetch'')) mounted) =
     [\<lparr>type = error, description = ''Using sample settings: Database connection unavailable''\<rparr>]"
  by (simp_all add: load_simps)

lemma demo_state_valid:
  "zodResolver rt settingsFormSchema (formValues (fetchSettings \<lparr>StringToNumber = \<lambda>s. NaN, ObjectToNumber = \<lambda>v. NaN, ArraySet = \<lambda>a p v. a\<rparr> (Rejects (ErrorObj ''Failed to fetch'')) mounted)) =
     Inr [(''temperature'', JNum (Fin 0.7)), (''maxTokens'', JNum (Fin 4000)),
          (''topP'', JNum (Fin 0.95)), (''frequencyPenalty'', JNum (Fin 0)),
          (''presencePenalty'', JNum (Fin 0))]"
  by (simp add: load_simps zodResolver_def settingsFormSchema_def)

lemma live_state:
  "\<not> useMockData (fetchSettings rt
      (Resolves \<lparr>ok = True, json = Inr (JObj [(''settings'',
         JObj [(''temperature'', JNum (Fin 1.2)), (''maxTokens'', JNum (Fin 2000))])])\<rparr>)
      mounted)"
  "requests (fetchSettings rt
      (Resolves \<lparr>ok = True, json = Inr (JObj [(''settings'',
         JObj [(''temperature'', JNum (Fin 1.2)), (''maxTokens'', JNum (Fin 2000))])])\<rparr>)
      mounted) = [settings_request]"
  "timers (fetchSettings rt
      (Resolves \<lparr>ok = True, json = Inr (JObj [(''settings'',
         JObj [(''temperature'', JNum (Fin 1.2)), (''maxTokens'', JNum (Fin 2000))])])\<rparr>)
      mounted) = []"
  "toasts (fetchSettings rt
      (Resolves \<lparr>ok = True, json = Inr (JObj [(''settings'',
         JObj [(''temperature'', JNum (Fin 1.2)), (''maxTokens'', JNum (Fin 2000))])])\<rparr>)
      mounted) = []"
  by (simp_all add: load_simps)

lemma live_state_valid:
  "zodResolver rt settingsFormSchema (formValues (fetchSettings rt
      (Resolves \<lparr>ok = True, json = Inr (JObj [(''settings'',
         JObj [(''temperature'', JNum (Fin 1.2)), (''maxTokens'', JNum (Fin 2000))])])\<rparr>)
      mounted)) =
     Inr [(''temperature'', JNum (Fin 1.2)), (''maxTokens'', JNum (Fin 2000)),
          (''topP'', JNum (Fin 0)), (''frequencyPenalty'', JNum (Fin 0)),
          (''presencePenalty'', JNum (Fin 0))]"
  by (simp add: load_simps zodResolver_def settingsFormSchema_def)

text \<open>
  Claim C6. Submitting never changes the session mode: the flag \<open>useMockData\<close> is the
  same after the submit handler, whichever branch it takes, and after the timer of the
  simulated save has expired.
\<close>

theorem submit_keeps_session_mode:
  "useMockData (handleSubmit rt r st) = useMockData st \<and>
   useMockData (fire_timers st) = useMockData st \<and>
   useMockData (submitSettings rt r st) = useMockData st"
  by (simp add: submitSettings_def fire_timers_eq handleSubmit_mode)

theorem submit_keeps_session_mode_witness:
  "useMockData (submitSettings \<lparr>StringToNumber = \<lambda>s. NaN, ObjectToNumber = \<lambda>v. NaN, ArraySet = \<lambda>a p v. a\<rparr> (Resolves \<lparr>ok = False, json = Inr JNull\<rparr>) (fetchSettings \<lparr>StringToNumber = \<lambda>s. NaN, ObjectToNumber = \<lambda>v. NaN, ArraySet = \<lambda>a p v. a\<rparr> (Rejects (ErrorObj ''Failed to fetch'')) mounted)) \<and>
   \<not> useMockData (submitSettings \<lparr>StringToNumber = \<lambda>s. NaN, ObjectToNumber = \<lambda>v. NaN, ArraySet = \<lambda>a p v. a\<rparr> (Resolves \<lparr>ok = False, json = Inr JNull\<rparr>) (fetchSettings \<lparr>StringToNumber = \<lambda>s. NaN, ObjectToNumber = \<lambda>v. NaN, ArraySet = \<lambda>a p v. a\<rparr>
      (Resolves \<lparr>ok = True, json = Inr (JObj [(''settings'',
         JObj [(''temperature'', JNum (Fin 1.2)), (''maxTokens'', JNum (Fin 2000))])])\<rparr>)
      mounted))"
  using submit_keeps_session_mode [of "\<lparr>StringToNumber = \<lambda>s. NaN, ObjectToNumber = \<lambda>v. NaN, ArraySet = \<lambda>a p v. a\<rparr>" "Resolves \<lparr>ok = False, json = Inr JNull\<rparr>" "(fetchSettings \<lparr>StringToNumber = \<lambda>s. NaN, ObjectToNumber = \<lambda>v. NaN, ArraySet = \<lambda>a p v. a\<rparr> (Rejects (ErrorObj ''Failed to fetch'')) mounted)"]
    submit_keeps_session_mode [of "\<lparr>StringToNumber = \<lambda>s. NaN, ObjectToNumber = \<lambda>v. NaN, ArraySet = \<lambda>a p v. a\<rparr>" "Resolves \<lparr>ok = False, json = Inr JNull\<rparr>" "(fetchSettings \<lparr>StringToNumber = \<lambda>s. NaN, ObjectToNumber = \<lambda>v. NaN, ArraySet = \<lambda>a p v. a\<rparr>
      (Resolves \<lparr>ok = True, json = Inr (JObj [(''settings'',
         JObj [(''temperature'', JNum (Fin 1.2)), (''maxTokens'', JNum (Fin 2000))])])\<rparr>)
      mounted)"]
    demo_state(1) live_state(1) [of "\<lparr>StringToNumber = \<lambda>s. NaN, ObjectToNumber = \<lambda>v. NaN, ArraySet = \<lambda>a p v. a\<rparr>"]
  by simp


text \<open>
  Claim C2. In demo mode a valid submit sends no request: the handler only registers
  the timer of 500 ms, and when the timers have expired the success notification has
  been added after those of the timers that were pending before, still with no request.
\<close>

theorem demo_submit_reports_success_without_request:
  assumes "zodResolver rt settingsFormSchema (formValues st) = Inr data" and "useMockData st"
  shows "requests (handleSubmit rt r st) = requests st \<and>
         toasts (handleSubmit rt r st) = toasts st \<and>
         timers (handleSubmit rt r st) = timers st @ [(500, MockSaveDone)] \<and>
         requests (submitSettings rt r st) = requests st \<and>
         toasts (submitSettings rt r st) =
           toasts (fire_timers st) @
             [\<lparr>type = success, description = ''Settings updated in mock mode''\<rparr>]"
proof -
  have h: "handleSubmit rt r st =
      st\<lparr>errors := (\<lambda>k. None), isLoading := True, timers := timers st @ [(500, MockSaveDone)]\<rparr>"
    using assms by (simp add: handleSubmit_def onSubmit_mock)
  show ?thesis
    by (simp add: submitSettings_def h fire_timers_eq replicate_append_same)
qed

theorem demo_submit_reports_success_without_request_witness:
  "zodResolver \<lparr>StringToNumber = \<lambda>s. NaN, ObjectToNumber = \<lambda>v. NaN, ArraySet = \<lambda>a p v. a\<rparr> settingsFormSchema (formValues (fetchSettings \<lparr>StringToNumber = \<lambda>s. NaN, ObjectToNumber = \<lambda>v. NaN, ArraySet = \<lambda>a p v. a\<rparr> (Rejects (ErrorObj ''Failed to fetch'')) mounted)) =
     Inr [(''temperature'', JNum (Fin 0.7)), (''maxTokens'', JNum (Fin 4000)),
          (''topP'', JNum (Fin 0.95)), (''frequencyPenalty'', JNum (Fin 0)),
          (''presencePenalty'', JNum (Fin 0))] \<and>
   useMockData (fetchSettings \<lparr>StringToNumber = \<lambda>s. NaN, ObjectToNumber = \<lambda>v. NaN, ArraySet = \<lambda>a p v. a\<rparr> (Rejects (ErrorObj ''Failed to fetch'')) mounted) \<and>
   requests (submitSettings \<lparr>StringToNumber = \<lambda>s. NaN, ObjectToNumber = \<lambda>v. NaN, ArraySet = \<lambda>a p v. a\<rparr> (Rejects NonError) (fetchSettings \<lparr>StringToNumber = \<lambda>s. NaN, ObjectToNumber = \<lambda>v. NaN, ArraySet = \<lambda>a p v. a\<rparr> (Rejects (ErrorObj ''Failed to fetch'')) mounted)) = [settings_request] \<and>
   toasts (submitSettings \<lparr>StringToNumber = \<lambda>s. NaN, ObjectToNumber = \<lambda>v. NaN, ArraySet = \<lambda>a p v. a\<rparr> (Rejects NonError) (fetchSettings \<lparr>StringToNumber = \<lambda>s. NaN, ObjectToNumber = \<lambda>v. NaN, ArraySet = \<lambda>a p v. a\<rparr> (Rejects (ErrorObj ''Failed to fetch'')) mounted)) =
     [\<lparr>type = error, description = ''Using sample settings: Database connection unavailable''\<rparr>,
      \<lparr>type = success, description = ''Settings updated in mock mode''\<rparr>]"
proof -
  let ?st = "(fetchSettings \<lparr>StringToNumber = \<lambda>s. NaN, ObjectToNumber = \<lambda>v. NaN, ArraySet = \<lambda>a p v. a\<rparr> (Rejects (ErrorObj ''Failed to fetch'')) mounted)"
  note v = demo_state_valid [of "\<lparr>StringToNumber = \<lambda>s. NaN, ObjectToNumber = \<lambda>v. NaN, ArraySet = \<lambda>a p v. a\<rparr>"]
  note m = demo_state(1)
  have f: "toasts (fire_timers ?st) = toasts ?st"
    by (simp add: fire_timers_eq demo_state(3))
  show ?thesis
    using demo_submit_reports_success_without_request [OF v m, of "Rejects NonError"]
      v m f demo_state(2,4)
    by simp
qed


text \<open>
  Claim C5. In live mode, when the write of a valid submit fails (the request is
  rejected or the response is not a success), one error notification carries the
  reason (the message of the error thrown, or \<open>Failed to update settings\<close>) and the
  form values are unchanged.
\<close>

theorem live_submit_failure_reported:
  assumes "zodResolver rt settingsFormSchema (formValues st) = Inr data" and "\<not> useMockData st"
    and "case r of Rejects e \<Rightarrow> True | Resolves resp \<Rightarrow> \<not> ok resp"
  shows "formValues (handleSubmit rt r st) = formValues st \<and>
         formValues (submitSettings rt r st) = formValues st \<and>
         toasts (handleSubmit rt r st) =
           toasts st @
             [\<lparr>type = error,
               description = (case r of
                                Rejects (ErrorObj m) \<Rightarrow> m
                              | Rejects NonError \<Rightarrow> ''Failed to update settings''
                              | Resolves resp \<Rightarrow> ''Failed to update settings'')\<rparr>]"
proof -
  have h: "handleSubmit rt r' st = onSubmit r' data (st\<lparr>errors := (\<lambda>k. None)\<rparr>)" for r'
    using assms(1) by (simp add: handleSubmit_def)
  have t: "toasts (handleSubmit rt r st) =
           toasts st @
             [\<lparr>type = error,
               description = (case r of
                                Rejects (ErrorObj m) \<Rightarrow> m
                              | Rejects NonError \<Rightarrow> ''Failed to update settings''
                              | Resolves resp \<Rightarrow> ''Failed to update settings'')\<rparr>]"
    using assms(2,3) by (cases r) (auto simp: h onSubmit_live split: thrown.splits)
  show ?thesis
    by (simp add: t handleSubmit_formValues submitSettings_def fire_timers_eq)
qed

theorem live_submit_failure_reported_witness:
  "zodResolver \<lparr>StringToNumber = \<lambda>s. NaN, ObjectToNumber = \<lambda>v. NaN, ArraySet = \<lambda>a p v. a\<rparr> settingsFormSchema (formValues (fetchSettings \<lparr>StringToNumber = \<lambda>s. NaN, ObjectToNumber = \<lambda>v. NaN, ArraySet = \<lambda>a p v. a\<rparr>
      (Resolves \<lparr>ok = True, json = Inr (JObj [(''settings'',
         JObj [(''temperature'', JNum (Fin 1.2)), (''maxTokens'', JNum (Fin 2000))])])\<rparr>)
      mounted)) =
     Inr [(''temperature'', JNum (Fin 1.2)), (''maxTokens'', JNum (Fin 2000)),
          (''topP'', JNum (Fin 0)), (''frequencyPenalty'', JNum (Fin 0)),
          (''presencePenalty'', JNum (Fin 0))] \<and>
   \<not> useMockData (fetchSettings \<lparr>StringToNumber = \<lambda>s. NaN, ObjectToNumber = \<lambda>v. NaN, ArraySet = \<lambda>a p v. a\<rparr>
      (Resolves \<lparr>ok = True, json = Inr (JObj [(''settings'',
         JObj [(''temperature'', JNum (Fin 1.2)), (''maxTokens'', JNum (Fin 2000))])])\<rparr>)
      mounted) \<and>
   formValues (submitSettings \<lparr>StringToNumber = \<lambda>s. NaN, ObjectToNumber = \<lambda>v. NaN, ArraySet = \<lambda>a p v. a\<rparr> (Resolves \<lparr>ok = False, json = Inr JNull\<rparr>) (fetchSettings \<lparr>StringToNumber = \<lambda>s. NaN, ObjectToNumber = \<lambda>v. NaN, ArraySet = \<lambda>a p v. a\<rparr>
      (Resolves \<lparr>ok = True, json = Inr (JObj [(''settings'',
         JObj [(''temperature'', JNum (Fin 1.2)), (''maxTokens'', JNum (Fin 2000))])])\<rparr>)
      mounted)) =
     formValues (fetchSettings \<lparr>StringToNumber = \<lambda>s. NaN, ObjectToNumber = \<lambda>v. NaN, ArraySet = \<lambda>a p v. a\<rparr>
      (Resolves \<lparr>ok = True, json = Inr (JObj [(''settings'',
         JObj [(''temperature'', JNum (Fin 1.2)), (''maxTokens'', JNum (Fin 2000))])])\<rparr>)
      mounted) \<and>
   toasts (handleSubmit \<lparr>StringToNumber = \<lambda>s. NaN, ObjectToNumber = \<lambda>v. NaN, ArraySet = \<lambda>a p v. a\<rparr> (Resolves \<lparr>ok = False, json = Inr JNull\<rparr>) (fetchSettings \<lparr>StringToNumber = \<lambda>s. NaN, ObjectToNumber = \<lambda>v. NaN, ArraySet = \<lambda>a p v. a\<rparr>
      (Resolves \<lparr>ok = True, json = Inr (JObj [(''settings'',
         JObj [(''temperature'', JNum (Fin 1.2)), (''maxTokens'', JNum (Fin 2000))])])\<rparr>)
      mounted)) =
     [\<lparr>type = error, description = ''Failed to update settings''\<rparr>]"
proof -
  note v = live_state_valid [of "\<lparr>StringToNumber = \<lambda>s. NaN, ObjectToNumber = \<lambda>v. NaN, ArraySet = \<lambda>a p v. a\<rparr>"]
  note m = live_state(1) [of "\<lparr>StringToNumber = \<lambda>s. NaN, ObjectToNumber = \<lambda>v. NaN, ArraySet = \<lambda>a p v. a\<rparr>"]
  have f: "case Resolves \<lparr>ok = False, json = Inr JNull\<rparr> of
      Rejects e \<Rightarrow> True | Resolves resp \<Rightarrow> \<not> ok resp"
    by simp
  show ?thesis
    using live_submit_failure_reported [OF v m f] v m live_state(4) [of "\<lparr>StringToNumber = \<lambda>s. NaN, ObjectToNumber = \<lambda>v. NaN, ArraySet = \<lambda>a p v. a\<rparr>"]
    by simp
qed

text \<open>
  In live mode a valid submit sends exactly one request, a \<open>PUT\<close> to the settings
  endpoint whose body is the parsed form data, and a successful response is reported
  by one success notification.
\<close>

lemma live_submit_one_put:
  assumes "zodResolver rt settingsFormSchema (formValues st) = Inr data" and "\<not> useMockData st"
  shows "requests (handleSubmit rt r st) =
           requests st @
             [\<lparr>url = ''/api/profile/settings'', http_method = PUT,
               headers = [(''Content-Type'', ''application/json'')],
               body = Some (JSON_stringify data)\<rparr>]"
    and "ok resp \<Longrightarrow>
           toasts (handleSubmit rt (Resolves resp) st) =
             toasts st @ [\<lparr>type = success, description = ''Settings updated successfully''\<rparr>]"
proof -
  have h: "handleSubmit rt r' st = onSubmit r' data (st\<lparr>errors := (\<lambda>k. None)\<rparr>)" for r'
    using assms(1) by (simp add: handleSubmit_def)
  show "requests (handleSubmit rt r st) =
           requests st @
             [\<lparr>url = ''/api/profile/settings'', http_method = PUT,
               headers = [(''Content-Type'', ''application/json'')],
               body = Some (JSON_stringify data)\<rparr>]"
    using assms(2) by (simp add: h onSubmit_live update_request_def)
  show "toasts (handleSubmit rt (Resolves resp) st) =
             toasts st @ [\<lparr>type = success, description = ''Settings updated successfully''\<rparr>]"
    if "ok resp"
    using assms(2) that by (simp add: h onSubmit_live)
qed

text \<open>
  Claim C3, on the mounted form. The load returns a temperature of 1.2 and 2000 for
  \<open>maxTokens\<close>; the other three inputs stay empty. The submit is valid and sends one
  \<open>PUT\<close>, but its body also carries \<open>topP\<close>, \<open>frequencyPenalty\<close> and
  \<open>presencePenalty\<close> with the value 0, which the coercion made of the empty inputs.
\<close>

theorem empty_inputs_sent_as_zero:
  "formValues (fetchSettings rt
      (Resolves \<lparr>ok = True, json = Inr (JObj [(''settings'',
         JObj [(''temperature'', JNum (Fin 1.2)), (''maxTokens'', JNum (Fin 2000))])])\<rparr>)
      mounted) ''topP'' = JStr [] \<and>
   formValues (fetchSettings rt
      (Resolves \<lparr>ok = True, json = Inr (JObj [(''settings'',
         JObj [(''temperature'', JNum (Fin 1.2)), (''maxTokens'', JNum (Fin 2000))])])\<rparr>)
      mounted) ''frequencyPenalty'' = JStr [] \<and>
   formValues (fetchSettings rt
      (Resolves \<lparr>ok = True, json = Inr (JObj [(''settings'',
         JObj [(''temperature'', JNum (Fin 1.2)), (''maxTokens'', JNum (Fin 2000))])])\<rparr>)
      mounted) ''presencePenalty'' = JStr [] \<and>
   requests (handleSubmit rt (Resolves \<lparr>ok = True, json = Inr JNull\<rparr>) (fetchSettings rt
      (Resolves \<lparr>ok = True, json = Inr (JObj [(''settings'',
         JObj [(''temperature'', JNum (Fin 1.2)), (''maxTokens'', JNum (Fin 2000))])])\<rparr>)
      mounted)) =
     [settings_request,
      \<lparr>url = ''/api/profile/settings'', http_method = PUT,
       headers = [(''Content-Type'', ''application/json'')],
       body = Some (JObj [(''temperature'', JNum (Fin 1.2)), (''maxTokens'', JNum (Fin 2000)),
                          (''topP'', JNum (Fin 0)), (''frequencyPenalty'', JNum (Fin 0)),
                          (''presencePenalty'', JNum (Fin 0))])\<rparr>]"
proof -
  have p: "formValues (fetchSettings rt
      (Resolves \<lparr>ok = True, json = Inr (JObj [(''settings'',
         JObj [(''temperature'', JNum (Fin 1.2)), (''maxTokens'', JNum (Fin 2000))])])\<rparr>)
      mounted) ''topP'' = JStr []"
    "formValues (fetchSettings rt
      (Resolves \<lparr>ok = True, json = Inr (JObj [(''settings'',
         JObj [(''temperature'', JNum (Fin 1.2)), (''maxTokens'', JNum (Fin 2000))])])\<rparr>)
      mounted) ''frequencyPenalty'' = JStr []"
    "formValues (fetchSettings rt
      (Resolves \<lparr>ok = True, json = Inr (JObj [(''settings'',
         JObj [(''temperature'', JNum (Fin 1.2)), (''maxTokens'', JNum (Fin 2000))])])\<rparr>)
      mounted) ''presencePenalty'' = JStr []"
    by (simp_all add: load_simps)
  have j: "JSON_stringify [(''temperature'', JNum (Fin 1.2)), (''maxTokens'', JNum (Fin 2000)),
          (''topP'', JNum (Fin 0)), (''frequencyPenalty'', JNum (Fin 0)),
          (''presencePenalty'', JNum (Fin 0))] =
      JObj [(''temperature'', JNum (Fin 1.2)), (''maxTokens'', JNum (Fin 2000)),
          (''topP'', JNum (Fin 0)), (''frequencyPenalty'', JNum (Fin 0)),
          (''presencePenalty'', JNum (Fin 0))]"
    by (simp add: JSON_stringify_def)
  show ?thesis
    using p live_submit_one_put(1) [OF live_state_valid live_state(1),
        of rt "Resolves \<lparr>ok = True, json = Inr JNull\<rparr>"] live_state(2) [of rt] j
    by simp
qed


lemma in_domain_finite:
  assumes "(k, t) \<in> set settingsFormSchema" and "in_domain k n"
  shows "\<exists>x. n = Fin x"
  using schema_cases [OF assms(1)] assms(2)
  by (cases n) (auto simp: in_domain_def)

text \<open>The schema accepts exactly the numbers of the declared domains.\<close>

lemma in_domain_accepted:
  assumes "(k, t) \<in> set settingsFormSchema" and "in_domain k n"
  shows "zparse rt t (JNum n) = Inr (JNum n)"
proof -
  obtain x where x: "n = Fin x" using in_domain_finite [OF assms] by blast
  from schema_cases [OF assms(1)] show ?thesis
  proof (elim disjE conjE)
    assume "k = ''maxTokens''" "t = ZOptional (ZCoerceNumber [Min 0 False, IsInt])"
    then show ?thesis using assms(2) by (simp add: in_domain_def x floor_eq_Ints)
  qed (use assms(2) in \<open>simp_all add: in_domain_def x\<close>)
qed

section \<open>The slogan tool: configuration and pass-through\<close>

text \<open>
  Claim C8 as stated fails: with the endpoint URL set to the empty string, both
  variables are present in the environment and the tool still throws at once.
\<close>

theorem slogan_empty_variable_counterexample:
  "\<not> ((fst (generateSlogan [''NOVA_AI_API_URL'' \<mapsto> '''', ''NOVA_AI_API_KEY'' \<mapsto> ''secret'']
             (Resolves \<lparr>ok = True, json = Inr (JObj [(''slogan'', JStr ''Just do it'')])\<rparr>) ''shoes'') = [] \<and>
        snd (generateSlogan [''NOVA_AI_API_URL'' \<mapsto> '''', ''NOVA_AI_API_KEY'' \<mapsto> ''secret'']
             (Resolves \<lparr>ok = True, json = Inr (JObj [(''slogan'', JStr ''Just do it'')])\<rparr>) ''shoes'') =
          Inl (ErrorObj ''NovaAI is not configured''))
       \<longleftrightarrow>
       ([''NOVA_AI_API_URL'' \<mapsto> '''', ''NOVA_AI_API_KEY'' \<mapsto> ''secret''] ''NOVA_AI_API_URL'' = None \<or>
        [''NOVA_AI_API_URL'' \<mapsto> '''', ''NOVA_AI_API_KEY'' \<mapsto> ''secret''] ''NOVA_AI_API_KEY'' = None))"
  by (simp add: generateSlogan_def)

text \<open>
  Claim C8, as amended. The slogan tool throws \<open>NovaAI is not configured\<close> without
  sending a request exactly when the endpoint URL or the credential is unset or is the
  empty string. When both are non-empty it sends one \<open>POST\<close> to the URL with the
  credential as bearer token and the prompt as body, and returns whatever
  \<open>response.json()\<close> yields, whether or not the status is a success.
\<close>

theorem slogan_fails_fast_iff_unset_or_empty:
  "((fst (generateSlogan env r prompt) = [] \<and>
     snd (generateSlogan env r prompt) = Inl (ErrorObj ''NovaAI is not configured''))
    \<longleftrightarrow>
    (env ''NOVA_AI_API_URL'' = None \<or> env ''NOVA_AI_API_URL'' = Some '''' \<or>
     env ''NOVA_AI_API_KEY'' = None \<or> env ''NOVA_AI_API_KEY'' = Some '''')) \<and>
   (\<forall>u c. env ''NOVA_AI_API_URL'' = Some u \<and> u \<noteq> '''' \<and>
          env ''NOVA_AI_API_KEY'' = Some c \<and> c \<noteq> '''' \<longrightarrow>
      fst (generateSlogan env r prompt) =
        [\<lparr>url = u, http_method = POST,
          headers = [(''Content-Type'', ''application/json''), (''Authorization'', ''Bearer '' @ c)],
          body = Some (JObj [(''prompt'', JStr prompt)])\<rparr>] \<and>
      (\<forall>resp. r = Resolves resp \<longrightarrow> snd (generateSlogan env r prompt) = json resp))"
proof -
  have f: "env_falsy x \<longleftrightarrow> x = None \<or> x = Some ''''" for x
    by (cases x) auto
  show ?thesis
    by (auto simp: generateSlogan_def Let_def f slogan_request_def JSON_stringify_def)
qed

theorem slogan_fails_fast_iff_unset_or_empty_witness:
  "fst (generateSlogan [''NOVA_AI_API_URL'' \<mapsto> ''https://nova.example/v1'', ''NOVA_AI_API_KEY'' \<mapsto> ''secret'']
       (Resolves \<lparr>ok = False, json = Inr (JObj [(''slogan'', JStr ''Just do it'')])\<rparr>) ''shoes'') =
     [\<lparr>url = ''https://nova.example/v1'', http_method = POST,
       headers = [(''Content-Type'', ''application/json''), (''Authorization'', ''Bearer secret'')],
       body = Some (JObj [(''prompt'', JStr ''shoes'')])\<rparr>] \<and>
   snd (generateSlogan [''NOVA_AI_API_URL'' \<mapsto> ''https://nova.example/v1'', ''NOVA_AI_API_KEY'' \<mapsto> ''secret'']
       (Resolves \<lparr>ok = False, json = Inr (JObj [(''slogan'', JStr ''Just do it'')])\<rparr>) ''shoes'') =
     Inr (JObj [(''slogan'', JStr ''Just do it'')])"
  using slogan_fails_fast_iff_unset_or_empty
    [of "[''NOVA_AI_API_URL'' \<mapsto> ''https://nova.example/v1'', ''NOVA_AI_API_KEY'' \<mapsto> ''secret'']"
        "Resolves \<lparr>ok = False, json = Inr (JObj [(''slogan'', JStr ''Just do it'')])\<rparr>" "''shoes''"]
  by simp

end
